theory Spec2Isabelle
  imports Main "HOL-Library.AList"
begin

section \<open>JavaScript objects and arrays\<close>

text \<open>
  A plain JavaScript object with string keys is an association list in insertion order.
  Writing a property keeps the position of a key that is already there and appends a new
  key at the end (\<open>AList.update\<close>); reading a property is \<open>map_of\<close>. The value type is
  left open: it may itself have a value standing for \<open>undefined\<close>, since a spread copies
  every own property, whatever it holds.
\<close>

type_synonym 'v jsobj = "(string \<times> 'v) list"

definition spread :: "'v jsobj \<Rightarrow> 'v jsobj \<Rightarrow> 'v jsobj" where
  \<comment> \<open>the effect of \<open>...obj\<close> inside an object literal built so far as \<open>acc\<close>\<close>
  "spread acc obj = foldl (\<lambda>a (k, v). AList.update k v a) acc obj"

definition objLit :: "'v jsobj list \<Rightarrow> 'v jsobj" where
  \<comment> \<open>the object literal \<open>{ ...o1, ...o2, ... }\<close>: a new object, filled left to right\<close>
  "objLit parts = foldl spread [] parts"

definition orEmpty :: "'v jsobj option \<Rightarrow> 'v jsobj" where
  \<comment> \<open>\<open>x || {}\<close> for an optional object\<close>
  "orEmpty x = (case x of None \<Rightarrow> [] | Some obj \<Rightarrow> obj)"

fun join :: "string \<Rightarrow> string list \<Rightarrow> string" where
  "join sep [] = []"
| "join sep [x] = x"
| "join sep (x # y # ys) = x @ sep @ join sep (y # ys)"

section \<open>Data model of AppearanceContext.tsx\<close>

datatype 'css ElementStyles = ClassName string | CssInJs 'css

type_synonym 'v Variables = "'v jsobj"

type_synonym 'css Elements = "'css ElementStyles jsobj"

record ('v, 'css) Theme =
  variables :: "'v Variables option"
  elements :: "'css Elements option"

datatype ('v, 'css) BaseTheme =
    Single "('v, 'css) Theme"
  | Many "('v, 'css) Theme list"

record ('v, 'css) Appearance = "('v, 'css) Theme" +
  baseTheme :: "('v, 'css) BaseTheme option"

record ('v, 'css) AppearanceContextType = "('v, 'css) Theme" +
  appearanceKeyToCssInJsClass :: "string jsobj"
  id_ctx :: string

record ('v, 'css) AppearanceProviderProps =
  appearance :: "('v, 'css) Appearance option"
  id_props :: string

text \<open>One item of the array returned by \<open>parseElements\<close>, as the provider reads it.\<close>

record ElementStyleData =
  key :: string
  rule :: string
  className :: string

section \<open>Theme resolution\<close>

definition emptyTheme :: "('v, 'css) Theme" where
  "emptyTheme = \<lparr>variables = None, elements = None\<rparr>"

definition themes :: "('v, 'css) AppearanceProviderProps \<Rightarrow> ('v, 'css) Theme list" where
  "themes props =
     (case appearance props of
        None \<Rightarrow> [emptyTheme]
      | Some a \<Rightarrow>
          (case baseTheme a of
             None \<Rightarrow> [emptyTheme]
           | Some (Single t) \<Rightarrow> [t]
           | Some (Many ts) \<Rightarrow> ts))"

definition topVariables :: "('v, 'css) AppearanceProviderProps \<Rightarrow> 'v Variables" where
  \<comment> \<open>\<open>props.appearance?.variables || {}\<close>\<close>
  "topVariables props =
     (case appearance props of None \<Rightarrow> [] | Some a \<Rightarrow> orEmpty (variables a))"

definition topElements :: "('v, 'css) AppearanceProviderProps \<Rightarrow> 'css Elements" where
  \<comment> \<open>\<open>props.appearance?.elements || {}\<close>\<close>
  "topElements props =
     (case appearance props of None \<Rightarrow> [] | Some a \<Rightarrow> orEmpty (elements a))"

definition reducedVariables :: "('v, 'css) Theme list \<Rightarrow> 'v Variables" where
  "reducedVariables ths = foldl (\<lambda>acc obj. objLit [acc, orEmpty (variables obj)]) [] ths"

definition baseVariables ::
  "'v Variables \<Rightarrow> ('v, 'css) AppearanceProviderProps \<Rightarrow> 'v Variables" where
  "baseVariables defaultVariables props =
     objLit [defaultVariables, reducedVariables (themes props)]"

definition effectiveVariables ::
  "'v Variables \<Rightarrow> ('v, 'css) AppearanceProviderProps \<Rightarrow> 'v Variables" where
  \<comment> \<open>the object handed to \<open>parseVariables\<close>\<close>
  "effectiveVariables defaultVariables props =
     objLit [baseVariables defaultVariables props, topVariables props]"

definition baseElements :: "('v, 'css) AppearanceProviderProps \<Rightarrow> 'css Elements" where
  "baseElements props =
     foldl (\<lambda>acc obj. objLit [acc, orEmpty (elements obj)]) [] (themes props)"

definition effectiveElements :: "('v, 'css) AppearanceProviderProps \<Rightarrow> 'css Elements" where
  \<comment> \<open>the object handed to \<open>parseElements\<close>\<close>
  "effectiveElements props = objLit [baseElements props, topElements props]"




text \<open>
  An object of the input is well formed when no key occurs twice in it, as in every
  JavaScript object.
\<close>

definition wfObj :: "'v jsobj \<Rightarrow> bool" where
  "wfObj obj = distinct (map fst obj)"



section \<open>The imported helpers\<close>

text \<open>
  Modelled from the spec: \<open>defaultVariables\<close> (module \<open>../config\<close>) and
  \<open>parseVariables\<close>, \<open>parseElements\<close> (module \<open>../helpers\<close>) are imported by
  AppearanceContext.tsx and missing from the sources. Section 4.2 asks of both parsers
  an output that is stable for identical input, so they are functions of their
  arguments; nothing else is assumed of them, and the provider is modelled over any
  such three values.
\<close>

record ('v, 'css) Helpers =
  defaultVariables :: "'v Variables"
  parseVariables :: "'v Variables \<Rightarrow> string \<Rightarrow> string list"
  parseElements :: "'css Elements \<Rightarrow> ElementStyleData list"

subsection \<open>The element branch as the specification describes it\<close>

text \<open>
  Modelled from the spec: how \<open>parseElements\<close> (module \<open>../helpers\<close>, missing from the
  sources) finds the base key of a compound key. Section 3: a key containing the
  double-underscore separator extends a base key, named by the part after the last
  separator.
\<close>

fun splitMarker :: "string \<Rightarrow> string list" where
  \<comment> \<open>the pieces of a key between its double-underscore markers, left to right\<close>
  "splitMarker [] = [[]]"
| "splitMarker [c] = [[c]]"
| "splitMarker (c # d # cs) =
     (if c = CHR ''_'' \<and> d = CHR ''_'' then [] # splitMarker cs
      else (case splitMarker (d # cs) of
              [] \<Rightarrow> [[c]]
            | piece # pieces \<Rightarrow> (c # piece) # pieces))"

definition baseKey :: "string \<Rightarrow> string option" where
  \<comment> \<open>the base key of a compound key: the part after its last marker\<close>
  "baseKey k =
     (case rev (splitMarker k) of
        b # _ # _ \<Rightarrow> Some b
      | _ \<Rightarrow> None)"

text \<open>
  Modelled from the spec: the class and the rule that the missing \<open>parseElements\<close> gives to
  one value (section 4.2): a string is a literal class name without a rule, a properties
  mapping gets a generated class name and a rule for it.
\<close>

definition ownClass :: "('css \<Rightarrow> string) \<Rightarrow> 'css ElementStyles \<Rightarrow> string" where
  "ownClass genClass v = (case v of ClassName s \<Rightarrow> s | CssInJs css \<Rightarrow> genClass css)"

definition ownRule ::
  "('css \<Rightarrow> string) \<Rightarrow> (string \<Rightarrow> 'css \<Rightarrow> string) \<Rightarrow> 'css ElementStyles \<Rightarrow> string" where
  "ownRule genClass genRule v =
     (case v of ClassName s \<Rightarrow> [] | CssInJs css \<Rightarrow> genRule (genClass css) css)"

text \<open>
  Modelled from the spec: the registry value that the missing \<open>parseElements\<close> gives to
  a key (section 4.2): "base class + own class" for a compound key whose base key is in
  the map, the own class otherwise.
\<close>

definition registryClass ::
  "('css \<Rightarrow> string) \<Rightarrow> 'css Elements \<Rightarrow> string \<Rightarrow> 'css ElementStyles \<Rightarrow> string" where
  "registryClass genClass els k v =
     (case baseKey k of
        None \<Rightarrow> ownClass genClass v
      | Some b \<Rightarrow>
          (case map_of els b of
             None \<Rightarrow> ownClass genClass v
           | Some bv \<Rightarrow> ownClass genClass bv @ '' '' @ ownClass genClass v))"

text \<open>
  Modelled from the spec: \<open>parseElements\<close> of module \<open>../helpers\<close> is missing from the
  sources. Section 4.2 of the specification, elements branch: a plain string value is a
  literal class name and no rule is generated for it (the item carries the empty rule
  text); a properties mapping gets a generated class name and a rule binding that class
  to the properties; for a compound key the registered class is the class of its base
  key followed by its own class, or its own class alone when the base key is not in the
  map. The generator of class names and the synthesis of a rule are not described
  further and stay parameters: \<open>genClass\<close> maps a style payload to its class name,
  \<open>genRule\<close> a class name and a payload to the rule text.
\<close>

definition specParseElements ::
  "('css \<Rightarrow> string) \<Rightarrow> (string \<Rightarrow> 'css \<Rightarrow> string) \<Rightarrow> 'css Elements \<Rightarrow> ElementStyleData list" where
  "specParseElements genClass genRule els =
     map (\<lambda>(k, v). \<lparr>key = k, rule = ownRule genClass genRule v,
                     className = registryClass genClass els k v\<rparr>) els"

section \<open>The document\<close>

text \<open>
  Elements live in a heap and are referred to by their index, so that two provider
  instances can hold the same element. The document lists the elements attached to it in
  tree order: the children of \<open>head\<close>, then everything else. An element whose id
  attribute is the empty string has no id: a lookup finds an element only under a
  non-empty id, and \<open>getElementById\<close> of the empty string finds nothing.
\<close>

type_synonym ref = nat

record HTMLElement =
  tagName :: string
  id_elem :: string
  innerHTML :: string

record Document =
  heap :: "HTMLElement list"
  headChildren :: "ref list"
  otherElements :: "ref list"

definition attached :: "Document \<Rightarrow> ref list" where
  "attached d = headChildren d @ otherElements d"

definition hasId :: "Document \<Rightarrow> string \<Rightarrow> ref \<Rightarrow> bool" where
  "hasId d i r = (i \<noteq> [] \<and> r < length (heap d) \<and> id_elem (heap d ! r) = i)"

definition getElementById :: "Document \<Rightarrow> string \<Rightarrow> ref option" where
  "getElementById d i = find (hasId d i) (attached d)"

definition nodesWithId :: "Document \<Rightarrow> string \<Rightarrow> ref list" where
  "nodesWithId d i = filter (hasId d i) (attached d)"

definition createElement :: "Document \<Rightarrow> string \<Rightarrow> Document \<times> ref" where
  "createElement d tag =
     (d\<lparr>heap := heap d @ [\<lparr>tagName = tag, id_elem = [], innerHTML = []\<rparr>]\<rparr>, length (heap d))"

definition setId :: "Document \<Rightarrow> ref \<Rightarrow> string \<Rightarrow> Document" where
  "setId d r i =
     (if r < length (heap d) then d\<lparr>heap := (heap d)[r := (heap d ! r)\<lparr>id_elem := i\<rparr>]\<rparr> else d)"

definition setInnerHTML :: "Document \<Rightarrow> ref \<Rightarrow> string \<Rightarrow> Document" where
  "setInnerHTML d r s =
     (if r < length (heap d) then d\<lparr>heap := (heap d)[r := (heap d ! r)\<lparr>innerHTML := s\<rparr>]\<rparr> else d)"

definition getInnerHTML :: "Document \<Rightarrow> ref \<Rightarrow> string option" where
  "getInnerHTML d r = (if r < length (heap d) then Some (innerHTML (heap d ! r)) else None)"

definition appendChildHead :: "Document \<Rightarrow> ref \<Rightarrow> Document" where
  "appendChildHead d r =
     d\<lparr>headChildren := filter (\<lambda>x. x \<noteq> r) (headChildren d) @ [r],
       otherElements := filter (\<lambda>x. x \<noteq> r) (otherElements d)\<rparr>"

definition removeElement :: "Document \<Rightarrow> ref \<Rightarrow> Document" where
  "removeElement d r =
     d\<lparr>headChildren := filter (\<lambda>x. x \<noteq> r) (headChildren d),
       otherElements := filter (\<lambda>x. x \<noteq> r) (otherElements d)\<rparr>"

definition emptyDocument :: Document where
  "emptyDocument = \<lparr>heap = [], headChildren = [], otherElements = []\<rparr>"

section \<open>AppearanceProvider\<close>

text \<open>
  The state of one provider instance: the store, the three signals, and whether the
  mount registered the cleanup that removes the style element.
\<close>

record ProviderState =
  store :: "string jsobj"
  styleElement :: "ref option"
  elementRules :: "string list"
  variableRules :: "string list"
  cleanupRegistered :: bool

definition initialProvider :: ProviderState where
  "initialProvider =
     \<lparr>store = [], styleElement = None, elementRules = [], variableRules = [],
      cleanupRegistered = False\<rparr>"

definition onMount ::
  "Document \<Rightarrow> ProviderState \<Rightarrow> ('v, 'css) AppearanceProviderProps \<Rightarrow> Document \<times> ProviderState" where
  "onMount d p props =
     (case getElementById d (id_props props) of
        Some el \<Rightarrow> (d, p\<lparr>styleElement := Some el\<rparr>)
      | None \<Rightarrow>
          (let (d1, styleEl) = createElement d ''style'';
               d2 = setId d1 styleEl (id_props props);
               d3 = appendChildHead d2 styleEl
           in (d3, p\<lparr>styleElement := Some styleEl, cleanupRegistered := True\<rparr>)))"

definition cleanup :: "Document \<Rightarrow> string \<Rightarrow> Document" where
  \<comment> \<open>the function handed to \<open>onCleanup\<close>\<close>
  "cleanup d i =
     (case getElementById d i of
        Some element \<Rightarrow> removeElement d element
      | None \<Rightarrow> d)"

definition dispose ::
  "Document \<Rightarrow> ProviderState \<Rightarrow> ('v, 'css) AppearanceProviderProps \<Rightarrow> Document \<times> ProviderState" where
  \<comment> \<open>teardown of the instance: the registered cleanups run, once\<close>
  "dispose d p props =
     (if cleanupRegistered p
      then (cleanup d (id_props props), p\<lparr>cleanupRegistered := False\<rparr>)
      else (d, p))"

definition variablesEffect ::
  "('v, 'css) Helpers \<Rightarrow> ('v, 'css) AppearanceProviderProps \<Rightarrow> ProviderState \<Rightarrow> ProviderState" where
  "variablesEffect env props p =
     (case styleElement p of
        None \<Rightarrow> p
      | Some styleEl \<Rightarrow>
          p\<lparr>variableRules :=
              parseVariables env (effectiveVariables (defaultVariables env) props)
                (id_props props)\<rparr>)"

definition registryOf :: "ElementStyleData list \<Rightarrow> string jsobj" where
  \<comment> \<open>the \<open>reduce\<close> over the items, starting from the empty object\<close>
  "registryOf items = foldl (\<lambda>acc item. AList.update (key item) (className item) acc) [] items"

definition elementsEffect ::
  "('v, 'css) Helpers \<Rightarrow> ('v, 'css) AppearanceProviderProps \<Rightarrow> ProviderState \<Rightarrow> ProviderState" where
  "elementsEffect env props p =
     (case styleElement p of
        None \<Rightarrow> p
      | Some styleEl \<Rightarrow>
          (let elementsStyleData = parseElements env (effectiveElements props)
           in p\<lparr>store := objLit [store p, registryOf elementsStyleData],
                elementRules := map rule elementsStyleData\<rparr>))"

definition rulesEffect :: "Document \<Rightarrow> ProviderState \<Rightarrow> Document" where
  "rulesEffect d p =
     (case styleElement p of
        None \<Rightarrow> d
      | Some styleEl \<Rightarrow> setInnerHTML d styleEl (join '' '' (variableRules p @ elementRules p)))"

definition recompute ::
  "('v, 'css) Helpers \<Rightarrow> ('v, 'css) AppearanceProviderProps \<Rightarrow> Document \<times> ProviderState
     \<Rightarrow> Document \<times> ProviderState" where
  \<comment> \<open>one round of the three effects, in the order of their creation\<close>
  "recompute env props s =
     (let p1 = variablesEffect env props (snd s);
          p2 = elementsEffect env props p1
      in (rulesEffect (fst s) p2, p2))"

definition contextValue ::
  "('v, 'css) AppearanceProviderProps \<Rightarrow> ProviderState \<Rightarrow> ('v, 'css) AppearanceContextType" where
  "contextValue props p =
     \<lparr>variables = None, elements = Some (topElements props),
      appearanceKeyToCssInJsClass = store p, id_ctx = id_props props\<rparr>"

subsection \<open>The accessor\<close>

datatype error = Error string

definition useContext :: "'a option \<Rightarrow> 'a list \<Rightarrow> 'a option" where
  \<comment> \<open>the value of the nearest enclosing provider, or the default of the context\<close>
  "useContext defaultValue enclosing =
     (case enclosing of [] \<Rightarrow> defaultValue | v # _ \<Rightarrow> Some v)"

definition useAppearance ::
  "('v, 'css) AppearanceContextType list
     \<Rightarrow> error + ('v, 'css) AppearanceContextType" where
  "useAppearance enclosing =
     (case useContext None enclosing of
        None \<Rightarrow> Inl (Error ''useAppearance must be used within an AppearanceProvider'')
      | Some context \<Rightarrow> Inr context)"

subsection \<open>Executions of one instance\<close>

text \<open>
  The reactive scheduler decides when each effect runs. An execution is any sequence of
  the steps below, each with the props current at that moment; this covers every order
  the scheduler may choose.
\<close>

datatype ('v, 'css) event =
    Mount "('v, 'css) AppearanceProviderProps"
  | RunVariables "('v, 'css) AppearanceProviderProps"
  | RunElements "('v, 'css) AppearanceProviderProps"
  | RunRules
  | Teardown "('v, 'css) AppearanceProviderProps"

fun isMount :: "('v, 'css) event \<Rightarrow> bool" where
  "isMount (Mount props) = True"
| "isMount e = False"

fun step ::
  "('v, 'css) Helpers \<Rightarrow> Document \<times> ProviderState \<Rightarrow> ('v, 'css) event
     \<Rightarrow> Document \<times> ProviderState" where
  "step env (d, p) (Mount props) = onMount d p props"
| "step env (d, p) (RunVariables props) = (d, variablesEffect env props p)"
| "step env (d, p) (RunElements props) = (d, elementsEffect env props p)"
| "step env (d, p) RunRules = (rulesEffect d p, p)"
| "step env (d, p) (Teardown props) = dispose d p props"

definition run ::
  "('v, 'css) Helpers \<Rightarrow> Document \<times> ProviderState \<Rightarrow> ('v, 'css) event list
     \<Rightarrow> Document \<times> ProviderState" where
  "run env s evs = foldl (step env) s evs"

subsection \<open>Composed runs\<close>

fun isEffect :: "('v, 'css) event \<Rightarrow> bool" where
  "isEffect (RunVariables props) = True"
| "isEffect (RunElements props) = True"
| "isEffect RunRules = True"
| "isEffect e = False"

text \<open>
  The life of one instance: mount, a sequence of further steps, teardown.
\<close>

definition mountedLife ::
  "('v, 'css) Helpers \<Rightarrow> Document \<Rightarrow> ProviderState \<Rightarrow> ('v, 'css) AppearanceProviderProps
     \<Rightarrow> ('v, 'css) event list \<Rightarrow> Document \<times> ProviderState" where
  "mountedLife env d p props evs =
     (let s1 = onMount d p props; s2 = run env s1 evs
      in dispose (fst s2) (snd s2) props)"

text \<open>
  The pipeline of a new instance on a document: mount, then one round of the effects.
  \<open>writtenCss\<close> reads the text of the style element the instance holds.
\<close>

definition pipeline ::
  "('v, 'css) Helpers \<Rightarrow> ('v, 'css) AppearanceProviderProps \<Rightarrow> Document
     \<Rightarrow> Document \<times> ProviderState" where
  "pipeline env props d = recompute env props (onMount d initialProvider props)"

definition writtenCss :: "Document \<times> ProviderState \<Rightarrow> string option" where
  "writtenCss s =
     (case styleElement (snd s) of None \<Rightarrow> None | Some styleEl \<Rightarrow> getInnerHTML (fst s) styleEl)"

definition currentRules ::
  "('v, 'css) Helpers \<Rightarrow> ('v, 'css) AppearanceProviderProps \<Rightarrow> string list" where
  "currentRules env props =
     parseVariables env (effectiveVariables (defaultVariables env) props) (id_props props)
       @ map rule (parseElements env (effectiveElements props))"

text \<open>
  Two documents have the same shape when they attach the same elements and the elements
  carry the same ids; only contents may differ. \<open>mountedDocument\<close> is the document after
  a mount that had to create the style element.
\<close>

definition sameShape :: "Document \<Rightarrow> Document \<Rightarrow> bool" where
  "sameShape d d' =
     (headChildren d' = headChildren d \<and> otherElements d' = otherElements d \<and>
      map id_elem (heap d') = map id_elem (heap d))"

definition mountedDocument :: "Document \<Rightarrow> string \<Rightarrow> Document" where
  "mountedDocument d i =
     \<lparr>heap = heap d @ [\<lparr>tagName = ''style'', id_elem = i, innerHTML = []\<rparr>],
      headChildren = filter (\<lambda>x. x \<noteq> length (heap d)) (headChildren d) @ [length (heap d)],
      otherElements = filter (\<lambda>x. x \<noteq> length (heap d)) (otherElements d)\<rparr>"

section \<open>The examples of the specification\<close>

text \<open>Style payloads in the examples are objects with string values.\<close>

type_synonym exCss = "string jsobj"

definition exDefaults :: "string Variables" where
  "exDefaults = [(''colorPrimary'', ''#000'')]"

definition exVariablesProps :: "(string, exCss) AppearanceProviderProps" where
  "exVariablesProps =
     \<lparr>appearance = Some
        \<lparr>variables = Some [(''fontSize'', ''16px'')],
         elements = None,
         baseTheme = Some (Single
           \<lparr>variables = Some [(''colorPrimary'', ''#111''), (''fontSize'', ''14px'')],
            elements = None\<rparr>)\<rparr>,
      id_props = ''novu''\<rparr>"

text \<open>
  Sample helpers for the examples: a class name made of the property names of the payload,
  a rule that binds the class to the declarations, and one rule per variable.
\<close>

definition exGenClass :: "exCss \<Rightarrow> string" where
  "exGenClass css = ''nv-'' @ join ''-'' (map fst css)"

definition exGenRule :: "string \<Rightarrow> exCss \<Rightarrow> string" where
  "exGenRule c css =
     ''.'' @ c @ '' {'' @ concat (map (\<lambda>(k, v). k @ '':'' @ v @ '';'') css) @ ''}''"

definition exParseVariables :: "string Variables \<Rightarrow> string \<Rightarrow> string list" where
  "exParseVariables vars i =
     map (\<lambda>(k, v). ''.'' @ i @ '' {--nv-'' @ k @ '':'' @ v @ '';}'') vars"

definition exEnv :: "(string, exCss) Helpers" where
  "exEnv = \<lparr>defaultVariables = exDefaults, parseVariables = exParseVariables,
            parseElements = specParseElements exGenClass exGenRule\<rparr>"

definition exElementsProps :: "(string, exCss) AppearanceProviderProps" where
  "exElementsProps =
     \<lparr>appearance = Some
        \<lparr>variables = None,
         elements = Some [(''button'', CssInJs [(''color'', ''red'')]),
                          (''back__button'', CssInJs [(''padding'', ''4px'')])],
         baseTheme = None\<rparr>,
      id_props = ''novu''\<rparr>"

definition exCompoundOnlyProps :: "(string, exCss) AppearanceProviderProps" where
  "exCompoundOnlyProps =
     \<lparr>appearance = Some
        \<lparr>variables = None,
         elements = Some [(''back__button'', CssInJs [(''padding'', ''4px'')])],
         baseTheme = None\<rparr>,
      id_props = ''novu''\<rparr>"

definition exButtonProps :: "(string, exCss) AppearanceProviderProps" where
  "exButtonProps =
     \<lparr>appearance = Some
        \<lparr>variables = None,
         elements = Some [(''button'', CssInJs [(''color'', ''red'')])],
         baseTheme = None\<rparr>,
      id_props = ''novu''\<rparr>"

definition exNoAppearance :: "(string, exCss) AppearanceProviderProps" where
  "exNoAppearance = \<lparr>appearance = None, id_props = ''novu''\<rparr>"

definition exMounted :: ProviderState where
  \<comment> \<open>a provider mounted on the empty document\<close>
  "exMounted = snd (onMount emptyDocument initialProvider exNoAppearance)"

definition exFirstMount :: "Document \<times> ProviderState" where
  "exFirstMount = onMount emptyDocument initialProvider exNoAppearance"

definition exSecondMount :: "Document \<times> ProviderState" where
  "exSecondMount = onMount (fst exFirstMount) initialProvider exNoAppearance"

definition exFirstTeardown :: "Document \<times> ProviderState" where
  "exFirstTeardown = dispose (fst exSecondMount) (snd exFirstMount) exNoAppearance"

definition exEmptyId :: "(string, exCss) AppearanceProviderProps" where
  "exEmptyId = \<lparr>appearance = None, id_props = []\<rparr>"

definition exEmptyFirstMount :: "Document \<times> ProviderState" where
  "exEmptyFirstMount = onMount emptyDocument initialProvider exEmptyId"

definition exEmptySecondMount :: "Document \<times> ProviderState" where
  "exEmptySecondMount = onMount (fst exEmptyFirstMount) initialProvider exEmptyId"

definition exEmptyTeardown :: "Document \<times> ProviderState" where
  "exEmptyTeardown = dispose (fst exEmptyFirstMount) (snd exEmptyFirstMount) exEmptyId"

definition exEvents :: "(string, exCss) event list" where
  "exEvents = [RunVariables exVariablesProps, RunElements exElementsProps, RunRules]"

definition exEarlyEvents :: "(string, exCss) event list" where
  "exEarlyEvents =
     [RunVariables exVariablesProps, RunElements exElementsProps, RunRules,
      Teardown exNoAppearance]"

definition exBaseTheme :: "(string, exCss) Theme" where
  "exBaseTheme =
     \<lparr>variables = None, elements = Some [(''button'', CssInJs [(''color'', ''red'')])]\<rparr>"

definition exTopLevel :: "(string, exCss) Appearance" where
  "exTopLevel = \<lparr>variables = None, elements = None, baseTheme = Some (Single exBaseTheme)\<rparr>"

definition exBaseOnlyProps :: "(string, exCss) AppearanceProviderProps" where
  "exBaseOnlyProps = \<lparr>appearance = Some exTopLevel, id_props = ''novu''\<rparr>"

section \<open>Facts about object literals\<close>

lemma map_of_spread: "map_of (spread acc obj) = map_of acc ++ map_of (rev obj)"
  unfolding spread_def
proof (induction obj arbitrary: acc)
  case Nil
  show ?case by simp
next
  case (Cons kv obj)
  obtain k v where kv: "kv = (k, v)" by (cases kv)
  have "map_of (foldl (\<lambda>a (k, v). AList.update k v a) (AList.update k v acc) obj)
        = map_of (AList.update k v acc) ++ map_of (rev obj)"
    by (rule Cons.IH)
  then show ?case
    by (simp add: kv update_conv' map_add_def fun_eq_iff split: option.splits)
qed

lemma wfObj_spread: "wfObj acc \<Longrightarrow> wfObj (spread acc obj)"
  unfolding spread_def wfObj_def
  by (induction obj arbitrary: acc) (auto simp: distinct_update)

lemma wfObj_objLit: "wfObj (objLit parts)"
proof -
  have "wfObj acc \<Longrightarrow> wfObj (foldl spread acc parts)" for acc :: "'a jsobj"
    by (induction parts arbitrary: acc) (auto simp: wfObj_spread)
  then show ?thesis by (simp add: objLit_def wfObj_def)
qed

lemma map_of_wfObj_rev: "wfObj obj \<Longrightarrow> map_of (rev obj) = map_of obj"
  unfolding wfObj_def
proof (induction obj)
  case Nil
  show ?case by simp
next
  case (Cons kv obj)
  obtain k v where kv: "kv = (k, v)" by (cases kv)
  have notin: "map_of (rev obj) k = None"
    using Cons.prems by (simp add: kv map_of_eq_None_iff)
  show ?case
    using Cons notin by (auto simp: kv map_add_def fun_eq_iff split: option.splits)
qed


section \<open>Variables: the override chain\<close>






section \<open>Elements: the class registry\<close>

lemmas model_defs = effectiveElements_def baseElements_def topElements_def themes_def
  emptyTheme_def orEmpty_def objLit_def spread_def

lemma keys_spread: "fst ` set (spread acc obj) = fst ` set acc \<union> fst ` set obj"
  unfolding spread_def
proof (induction obj arbitrary: acc)
  case Nil
  show ?case by simp
next
  case (Cons kv obj)
  have "fst ` set (foldl (\<lambda>a (k, v). AList.update k v a) (AList.update (fst kv) (snd kv) acc) obj)
        = fst ` set (AList.update (fst kv) (snd kv) acc) \<union> fst ` set obj"
    by (rule Cons.IH)
  then show ?case
    by (simp add: case_prod_unfold dom_update)
qed

lemma keys_objLit2: "fst ` set (objLit [a, b]) = fst ` set a \<union> fst ` set b"
  by (simp add: objLit_def keys_spread)

lemma registryOf_spread:
  "registryOf items = spread [] (map (\<lambda>item. (key item, className item)) items)"
  by (simp add: registryOf_def spread_def foldl_map)

lemma wfObj_registryOf: "wfObj (registryOf items)"
  unfolding registryOf_spread by (rule wfObj_spread) (simp add: wfObj_def)

lemma keys_registryOf: "fst ` set (registryOf items) = key ` set items"
  by (simp add: registryOf_spread keys_spread image_image)

lemma map_of_objLit2_right:
  assumes "wfObj b" and "map_of b k = Some c"
  shows "map_of (objLit [a, b]) k = Some c"
  using assms by (simp add: objLit_def map_of_spread map_of_wfObj_rev map_add_def)

lemma map_of_tagged:
  "map_of (map (\<lambda>(k, v). (k, f k v)) els) k = map_option (f k) (map_of els k)"
  by (induction els) auto

lemma registry_spec:
  assumes "wfObj els"
  shows "map_of (registryOf (specParseElements genClass genRule els)) k
         = map_option (registryClass genClass els k) (map_of els k)"
proof -
  let ?pairs = "map (\<lambda>(k, v). (k, registryClass genClass els k v)) els"
  have pairs: "map (\<lambda>item. (key item, className item))
                 (specParseElements genClass genRule els) = ?pairs"
    by (simp add: specParseElements_def case_prod_unfold)
  have wf: "wfObj ?pairs"
    using assms by (simp add: wfObj_def case_prod_unfold comp_def)
  show ?thesis
    by (simp add: registryOf_spread pairs map_of_spread map_of_wfObj_rev [OF wf] map_of_tagged)
qed

lemma wfObj_effectiveElements: "wfObj (effectiveElements props)"
  unfolding effectiveElements_def by (rule wfObj_objLit)

lemma exMounted_eq:
  "exMounted = \<lparr>store = [], styleElement = Some 0, elementRules = [], variableRules = [],
                 cleanupRegistered = True\<rparr>"
  by (simp add: exMounted_def onMount_def getElementById_def attached_def emptyDocument_def
      createElement_def exNoAppearance_def initialProvider_def Let_def)

lemma exMounted_style: "styleElement exMounted = Some 0"
  by (simp add: exMounted_eq)

lemma exButton_first:
  "elementsEffect exEnv exButtonProps exMounted
     = exMounted\<lparr>store := [(''button'', ''nv-color'')],
                  elementRules := [''.nv-color {color:red;}'']\<rparr>"
  by (simp add: elementsEffect_def exMounted_eq model_defs exButtonProps_def exEnv_def
      specParseElements_def registryOf_def registryClass_def baseKey_def ownClass_def
      ownRule_def exGenClass_def exGenRule_def)

text \<open>
  C2. With \<open>parseElements\<close> as the specification describes it, after the elements effect
  has run on a mounted provider the registry entry of a compound key of the effective
  map is the class of the base key, a space and the key's own class when the base key
  is in the effective map, and the key's own class alone when it is not.
\<close>

theorem C2_compound_key_class:
  assumes mounted: "styleElement p = Some r"
    and helper: "parseElements env = specParseElements genClass genRule"
    and present: "map_of (effectiveElements props) k = Some v"
    and compound: "baseKey k = Some b"
  shows "map_of (store (elementsEffect env props p)) k =
           Some (case map_of (effectiveElements props) b of
                   Some bv \<Rightarrow> ownClass genClass bv @ '' '' @ ownClass genClass v
                 | None \<Rightarrow> ownClass genClass v)"
proof -
  let ?els = "effectiveElements props"
  have reg: "map_of (registryOf (specParseElements genClass genRule ?els)) k
             = Some (registryClass genClass ?els k v)"
    by (simp add: registry_spec [OF wfObj_effectiveElements] present)
  have "map_of (store (elementsEffect env props p)) k = Some (registryClass genClass ?els k v)"
    using mounted
    by (simp add: elementsEffect_def helper Let_def
        map_of_objLit2_right [OF wfObj_registryOf reg])
  then show ?thesis
    by (simp add: registryClass_def compound split: option.splits)
qed

text \<open>
  The example of the specification: effective elements
  \<open>{button: {color: "red"}, back__button: {padding: "4px"}}\<close> register for
  \<open>back__button\<close> the class of \<open>button\<close> followed by the class of \<open>back__button\<close>; without
  the \<open>button\<close> entry only the class of \<open>back__button\<close> is registered.
\<close>

theorem back_button_example_holds:
  "map_of (store (elementsEffect exEnv exElementsProps exMounted)) ''back__button''
     = Some (exGenClass [(''color'', ''red'')] @ '' '' @ exGenClass [(''padding'', ''4px'')])
   \<and> map_of (store (elementsEffect exEnv exCompoundOnlyProps exMounted)) ''back__button''
     = Some (exGenClass [(''padding'', ''4px'')])"
proof -
  have helper: "parseElements exEnv = specParseElements exGenClass exGenRule"
    by (simp add: exEnv_def)
  have base: "baseKey ''back__button'' = Some ''button''"
    by (simp add: baseKey_def)
  have eff1: "effectiveElements exElementsProps =
       [(''button'', CssInJs [(''color'', ''red'')]),
        (''back__button'', CssInJs [(''padding'', ''4px'')])]"
    by (simp add: model_defs exElementsProps_def)
  have eff2: "effectiveElements exCompoundOnlyProps =
       [(''back__button'', CssInJs [(''padding'', ''4px'')])]"
    by (simp add: model_defs exCompoundOnlyProps_def)
  have present1: "map_of (effectiveElements exElementsProps) ''back__button''
      = Some (CssInJs [(''padding'', ''4px'')])"
    by (simp add: eff1)
  have present2: "map_of (effectiveElements exCompoundOnlyProps) ''back__button''
      = Some (CssInJs [(''padding'', ''4px'')])"
    by (simp add: eff2)
  have one: "map_of (store (elementsEffect exEnv exElementsProps exMounted)) ''back__button''
     = Some (exGenClass [(''color'', ''red'')] @ '' '' @ exGenClass [(''padding'', ''4px'')])"
    using C2_compound_key_class [OF exMounted_style helper present1 base]
    by (simp add: eff1 ownClass_def)
  have two: "map_of (store (elementsEffect exEnv exCompoundOnlyProps exMounted)) ''back__button''
     = Some (exGenClass [(''padding'', ''4px'')])"
    using C2_compound_key_class [OF exMounted_style helper present2 base]
    by (simp add: eff2 ownClass_def)
  from one two show ?thesis by (intro conjI)
qed

text \<open>
  C3, as stated, fails: the elements effect spreads the previous registry into the new
  one. After a run with elements \<open>{button: {color: "red"}}\<close> and a second run without any
  appearance, the effective map is empty and the registry still has the key \<open>button\<close>.
\<close>

theorem registry_keeps_removed_key:
  "\<not> fst ` set (store (elementsEffect exEnv exNoAppearance
                         (elementsEffect exEnv exButtonProps exMounted)))
       \<subseteq> fst ` set (effectiveElements exNoAppearance)"
proof -
  have second: "store (elementsEffect exEnv exNoAppearance
                         (elementsEffect exEnv exButtonProps exMounted))
      = [(''button'', ''nv-color'')]"
    unfolding exButton_first
    by (simp add: elementsEffect_def exMounted_eq model_defs exNoAppearance_def exEnv_def
        specParseElements_def registryOf_def)
  have eff: "effectiveElements exNoAppearance = []"
    by (simp add: model_defs exNoAppearance_def)
  show ?thesis by (simp add: second eff)
qed

text \<open>
  C3, amended. After a run of the elements effect on a mounted provider, the keys of the
  registry are the keys it had before together with the keys of the items that
  \<open>parseElements\<close> returned for the effective map: entries are added or overwritten,
  never removed.
\<close>

theorem C3_registry_keys_accumulate:
  assumes "styleElement p = Some r"
  shows "fst ` set (store (elementsEffect env props p))
         = fst ` set (store p) \<union> key ` set (parseElements env (effectiveElements props))"
  using assms by (simp add: elementsEffect_def Let_def keys_objLit2 keys_registryOf)

theorem registry_keys_first_run:
  "styleElement exMounted = Some 0
   \<and> fst ` set (store (elementsEffect exEnv exButtonProps exMounted)) = {''button''}"
proof -
  have items: "key ` set (parseElements exEnv (effectiveElements exButtonProps)) = {''button''}"
    by (simp add: model_defs exButtonProps_def exEnv_def specParseElements_def)
  have empty: "store exMounted = []"
    by (simp add: exMounted_eq)
  have "fst ` set (store (elementsEffect exEnv exButtonProps exMounted)) = {''button''}"
    using C3_registry_keys_accumulate [OF exMounted_style, of exEnv exButtonProps] items empty
    by simp
  with exMounted_style show ?thesis by (intro conjI)
qed

section \<open>The document and the style element\<close>

lemma map_update_same: "r < length xs \<Longrightarrow> (map f xs)[r := f (xs ! r)] = map f xs"
  by (simp add: list_eq_iff_nth_eq nth_list_update)

lemma sameShape_refl: "sameShape d d"
  by (simp add: sameShape_def)

lemma sameShape_trans: "sameShape a b \<Longrightarrow> sameShape b c \<Longrightarrow> sameShape a c"
  by (simp add: sameShape_def)

lemma hasId_sameShape: "sameShape d d' \<Longrightarrow> hasId d' i r = hasId d i r"
proof -
  assume s: "sameShape d d'"
  then have m: "map id_elem (heap d') = map id_elem (heap d)" by (simp add: sameShape_def)
  then have l: "length (heap d') = length (heap d)" by (metis length_map)
  show ?thesis
  proof (cases "r < length (heap d)")
    case True
    then have "id_elem (heap d' ! r) = id_elem (heap d ! r)"
      using m l by (metis nth_map)
    then show ?thesis by (simp add: hasId_def l)
  next
    case False
    then show ?thesis by (simp add: hasId_def l)
  qed
qed

lemma getElementById_sameShape: "sameShape d d' \<Longrightarrow> getElementById d' i = getElementById d i"
proof -
  assume s: "sameShape d d'"
  have "hasId d' i = hasId d i" using hasId_sameShape [OF s] by (simp add: fun_eq_iff)
  moreover have "attached d' = attached d" using s by (simp add: sameShape_def attached_def)
  ultimately show ?thesis by (simp add: getElementById_def)
qed

lemma nodesWithId_sameShape: "sameShape d d' \<Longrightarrow> nodesWithId d' i = nodesWithId d i"
proof -
  assume s: "sameShape d d'"
  have "hasId d' i = hasId d i" using hasId_sameShape [OF s] by (simp add: fun_eq_iff)
  moreover have "attached d' = attached d" using s by (simp add: sameShape_def attached_def)
  ultimately show ?thesis by (simp add: nodesWithId_def)
qed

lemma length_heap_sameShape: "sameShape d d' \<Longrightarrow> length (heap d') = length (heap d)"
  unfolding sameShape_def by (metis length_map)

lemma sameShape_setInnerHTML: "sameShape d (setInnerHTML d r s)"
  by (simp add: sameShape_def setInnerHTML_def map_update map_update_same)

lemma sameShape_rulesEffect: "sameShape d (rulesEffect d p)"
  by (cases "styleElement p") (simp_all add: rulesEffect_def sameShape_setInnerHTML sameShape_refl)

lemma getElementById_None: "getElementById d i = None \<longleftrightarrow> (\<forall>r \<in> set (attached d). \<not> hasId d i r)"
  by (auto simp: getElementById_def find_None_iff)

lemma getElementById_Some_hasId: "getElementById d i = Some r \<Longrightarrow> hasId d i r \<and> r \<in> set (attached d)"
  by (auto simp: getElementById_def find_Some_iff)

lemma getElementById_nodesWithId:
  "getElementById d i = (case nodesWithId d i of [] \<Rightarrow> None | r # _ \<Rightarrow> Some r)"
proof -
  have "find P xs = (case filter P xs of [] \<Rightarrow> None | r # _ \<Rightarrow> Some r)" for P and xs :: "nat list"
    by (induction xs) auto
  then show ?thesis by (simp add: getElementById_def nodesWithId_def)
qed

lemma onMount_create:
  assumes "getElementById d (id_props props) = None"
  shows "onMount d p props =
           (mountedDocument d (id_props props),
            p\<lparr>styleElement := Some (length (heap d)), cleanupRegistered := True\<rparr>)"
  using assms
  by (simp add: onMount_def createElement_def setId_def appendChildHead_def mountedDocument_def Let_def)

lemma onMount_adopt:
  assumes "getElementById d (id_props props) = Some r"
  shows "onMount d p props = (d, p\<lparr>styleElement := Some r\<rparr>)"
  using assms by (simp add: onMount_def)

lemma hasId_mounted_old:
  assumes "r \<noteq> length (heap d)"
  shows "hasId (mountedDocument d i) j r = hasId d j r"
  using assms by (auto simp: hasId_def mountedDocument_def nth_append)

lemma hasId_mounted_new:
  "hasId (mountedDocument d i) j (length (heap d)) = (j \<noteq> [] \<and> i = j)"
  by (simp add: hasId_def mountedDocument_def)

lemma getElementById_empty: "getElementById d [] = None"
  by (simp add: getElementById_def find_None_iff hasId_def)

lemma filter_hasId_mounted:
  assumes "\<forall>x\<in>set xs. \<not> hasId d j x"
  shows "filter (\<lambda>x. x \<noteq> length (heap d) \<and> hasId (mountedDocument d i) j x) xs = []"
  using assms by (induction xs) (auto simp: hasId_mounted_old)

lemma nodesWithId_mounted:
  assumes "getElementById d i = None" and "i \<noteq> []"
  shows "nodesWithId (mountedDocument d i) i = [length (heap d)]"
proof -
  have none: "\<forall>r\<in>set (headChildren d @ otherElements d). \<not> hasId d i r"
    using assms(1) by (simp add: getElementById_None attached_def)
  have h: "\<forall>x\<in>set (headChildren d). \<not> hasId d i x"
    and o: "\<forall>x\<in>set (otherElements d). \<not> hasId d i x"
    using none by auto
  have hc: "headChildren (mountedDocument d i) = filter (\<lambda>x. x \<noteq> length (heap d)) (headChildren d) @ [length (heap d)]"
    and oe: "otherElements (mountedDocument d i) = filter (\<lambda>x. x \<noteq> length (heap d)) (otherElements d)"
    by (simp_all add: mountedDocument_def)
  show ?thesis
    by (simp add: nodesWithId_def attached_def hc oe filter_hasId_mounted [OF h]
        filter_hasId_mounted [OF o] hasId_mounted_new assms(2))
qed

lemma getElementById_mounted:
  assumes "getElementById d i = None" and "i \<noteq> []"
  shows "getElementById (mountedDocument d i) i = Some (length (heap d))"
  by (simp add: getElementById_nodesWithId [of "mountedDocument d i"]
      nodesWithId_mounted [OF assms])

lemma getInnerHTML_mounted_new:
  "getInnerHTML (mountedDocument d i) (length (heap d)) = Some []"
  by (simp add: getInnerHTML_def mountedDocument_def)

lemma nodesWithId_removeElement:
  "nodesWithId (removeElement d r) i = filter (\<lambda>x. x \<noteq> r) (nodesWithId d i)"
proof -
  have "hasId (removeElement d r) i = hasId d i"
    by (simp add: hasId_def removeElement_def fun_eq_iff)
  then show ?thesis
    by (simp add: nodesWithId_def attached_def removeElement_def conj_commute)
qed

lemma nodesWithId_cleanup:
  "nodesWithId (cleanup d i) i =
     (case nodesWithId d i of [] \<Rightarrow> [] | r # rs \<Rightarrow> filter (\<lambda>x. x \<noteq> r) rs)"
  by (simp add: cleanup_def getElementById_nodesWithId nodesWithId_removeElement split: list.splits)

lemma cleanup_attached:
  assumes "getElementById d i = Some r"
  shows "r \<notin> set (attached (cleanup d i))"
  using assms by (simp add: cleanup_def removeElement_def attached_def)

lemma heap_cleanup: "heap (cleanup d i) = heap d"
  by (simp add: cleanup_def removeElement_def split: option.splits)

lemma onMount_count:
  assumes "length (nodesWithId d (id_props props)) \<le> 1" and "id_props props \<noteq> []"
  shows "length (nodesWithId (fst (onMount d p props)) (id_props props)) = 1"
proof (cases "getElementById d (id_props props)")
  case None
  then show ?thesis by (simp add: onMount_create nodesWithId_mounted assms(2))
next
  case (Some r)
  then have "nodesWithId d (id_props props) \<noteq> []"
    by (auto simp: getElementById_nodesWithId split: list.splits)
  with assms(1) have "length (nodesWithId d (id_props props)) = 1"
    by (cases "nodesWithId d (id_props props)") auto
  then show ?thesis using Some by (simp add: onMount_adopt)
qed

lemma onMount_valid:
  "\<exists>r. styleElement (snd (onMount d p props)) = Some r
       \<and> r < length (heap (fst (onMount d p props)))"
proof (cases "getElementById d (id_props props)")
  case None
  then show ?thesis by (simp add: onMount_create mountedDocument_def)
next
  case (Some r)
  then show ?thesis
    using getElementById_Some_hasId [OF Some] by (simp add: onMount_adopt hasId_def)
qed

lemma step_effect:
  assumes "isEffect e"
  shows "sameShape d (fst (step env (d, p) e))
         \<and> cleanupRegistered (snd (step env (d, p) e)) = cleanupRegistered p
         \<and> styleElement (snd (step env (d, p) e)) = styleElement p"
  using assms
  by (cases e)
     (simp_all add: sameShape_refl sameShape_rulesEffect variablesEffect_def elementsEffect_def
        Let_def split: option.splits)

lemma run_effects:
  assumes "list_all isEffect evs"
  shows "sameShape d (fst (run env (d, p) evs))
         \<and> cleanupRegistered (snd (run env (d, p) evs)) = cleanupRegistered p
         \<and> styleElement (snd (run env (d, p) evs)) = styleElement p"
  using assms
proof (induction evs arbitrary: d p)
  case Nil
  show ?case by (simp add: run_def sameShape_refl)
next
  case (Cons e evs)
  obtain d1 p1 where s1: "step env (d, p) e = (d1, p1)" by (cases "step env (d, p) e")
  have e: "isEffect e" and rest: "list_all isEffect evs" using Cons.prems by simp_all
  have one: "sameShape d d1" "cleanupRegistered p1 = cleanupRegistered p"
    "styleElement p1 = styleElement p"
    using step_effect [OF e, of d env p] by (simp_all add: s1)
  have unfold: "run env (d, p) (e # evs) = run env (d1, p1) evs"
    by (simp add: run_def s1)
  show ?case
    using Cons.IH [OF rest, of d1 p1] one
    by (auto simp: unfold intro: sameShape_trans)
qed

lemma getInnerHTML_setInnerHTML:
  "r < length (heap d) \<Longrightarrow> getInnerHTML (setInnerHTML d r s) r = Some s"
  by (simp add: getInnerHTML_def setInnerHTML_def)

lemma recompute_written:
  assumes "styleElement p = Some r" and "r < length (heap d)"
  shows "getInnerHTML (fst (recompute env props (d, p))) r = Some (join '' '' (currentRules env props))"
    and "styleElement (snd (recompute env props (d, p))) = Some r"
    and "length (heap (fst (recompute env props (d, p)))) = length (heap d)"
proof -
  show "getInnerHTML (fst (recompute env props (d, p))) r = Some (join '' '' (currentRules env props))"
    using assms
    by (simp add: recompute_def variablesEffect_def elementsEffect_def rulesEffect_def Let_def
        currentRules_def getInnerHTML_setInnerHTML)
  show "styleElement (snd (recompute env props (d, p))) = Some r"
    using assms
    by (simp add: recompute_def variablesEffect_def elementsEffect_def Let_def)
  show "length (heap (fst (recompute env props (d, p)))) = length (heap d)"
    using assms
    by (simp add: recompute_def variablesEffect_def elementsEffect_def rulesEffect_def Let_def
        setInnerHTML_def)
qed

lemma pipeline_written: "writtenCss (pipeline env props d) = Some (join '' '' (currentRules env props))"
proof -
  obtain d1 p1 where m: "onMount d initialProvider props = (d1, p1)"
    by (cases "onMount d initialProvider props")
  obtain r where r: "styleElement p1 = Some r" "r < length (heap d1)"
    using onMount_valid [of d initialProvider props] by (auto simp: m)
  show ?thesis
    using recompute_written [OF r, of env props]
    by (simp add: pipeline_def writtenCss_def m)
qed

lemma step_before_mount:
  assumes "\<not> isMount e"
  shows "step env (d, initialProvider) e = (d, initialProvider)"
  using assms
  by (cases e)
     (simp_all add: variablesEffect_def elementsEffect_def rulesEffect_def dispose_def
        initialProvider_def)

lemma step_keeps_node:
  assumes "styleElement p \<noteq> None"
  shows "styleElement (snd (step env (d, p) e)) \<noteq> None"
proof (cases e)
  case (Mount props)
  then show ?thesis using onMount_valid [of d p props] by auto
next
  case (Teardown props)
  then show ?thesis using assms by (simp add: dispose_def)
qed (use assms in \<open>auto simp: variablesEffect_def elementsEffect_def Let_def\<close>)

subsection \<open>The example runs\<close>

lemma exFirstMount_eq:
  "exFirstMount =
     (\<lparr>heap = [\<lparr>tagName = ''style'', id_elem = ''novu'', innerHTML = []\<rparr>],
       headChildren = [0], otherElements = []\<rparr>,
      \<lparr>store = [], styleElement = Some 0, elementRules = [], variableRules = [],
       cleanupRegistered = True\<rparr>)"
  by (simp add: exFirstMount_def onMount_def getElementById_def attached_def emptyDocument_def
      createElement_def setId_def appendChildHead_def exNoAppearance_def initialProvider_def Let_def)

lemma exSecondMount_eq:
  "exSecondMount =
     (\<lparr>heap = [\<lparr>tagName = ''style'', id_elem = ''novu'', innerHTML = []\<rparr>],
       headChildren = [0], otherElements = []\<rparr>,
      \<lparr>store = [], styleElement = Some 0, elementRules = [], variableRules = [],
       cleanupRegistered = False\<rparr>)"
  by (simp add: exSecondMount_def exFirstMount_eq onMount_def getElementById_def attached_def
      hasId_def exNoAppearance_def initialProvider_def)

lemma exFirstTeardown_eq:
  "fst exFirstTeardown =
     \<lparr>heap = [\<lparr>tagName = ''style'', id_elem = ''novu'', innerHTML = []\<rparr>],
       headChildren = [], otherElements = []\<rparr>"
  by (simp add: exFirstTeardown_def exSecondMount_eq exFirstMount_eq dispose_def cleanup_def
      getElementById_def attached_def hasId_def removeElement_def exNoAppearance_def)

lemma ex_effectiveVariables:
  "effectiveVariables exDefaults exVariablesProps
     = [(''colorPrimary'', ''#111''), (''fontSize'', ''16px'')]"
  by (simp add: effectiveVariables_def baseVariables_def reducedVariables_def themes_def
      topVariables_def orEmpty_def objLit_def spread_def exDefaults_def exVariablesProps_def)

lemma ex_effectiveElements:
  "effectiveElements exElementsProps =
     [(''button'', CssInJs [(''color'', ''red'')]),
      (''back__button'', CssInJs [(''padding'', ''4px'')])]"
  by (simp add: model_defs exElementsProps_def)

lemma ex_variableRules:
  "parseVariables exEnv (effectiveVariables (defaultVariables exEnv) exVariablesProps)
     (id_props exVariablesProps)
   = [''.novu {--nv-colorPrimary:#111;}'', ''.novu {--nv-fontSize:16px;}'']"
proof -
  have d: "defaultVariables exEnv = exDefaults" by (simp add: exEnv_def)
  show ?thesis
    unfolding d ex_effectiveVariables
    by (simp add: exEnv_def exParseVariables_def exVariablesProps_def)
qed

lemma ex_elementRules:
  "map rule (parseElements exEnv (effectiveElements exElementsProps))
   = [''.nv-color {color:red;}'', ''.nv-padding {padding:4px;}'']"
  unfolding ex_effectiveElements
  by (simp add: exEnv_def specParseElements_def ownRule_def exGenClass_def exGenRule_def)

lemma exEvents_run:
  "run exEnv exFirstMount exEvents =
     (\<lparr>heap = [\<lparr>tagName = ''style'', id_elem = ''novu'',
                innerHTML = ''.novu {--nv-colorPrimary:#111;} .novu {--nv-fontSize:16px;} .nv-color {color:red;} .nv-padding {padding:4px;}''\<rparr>],
       headChildren = [0], otherElements = []\<rparr>,
      \<lparr>store = [(''button'', ''nv-color''), (''back__button'', ''nv-color nv-padding'')],
       styleElement = Some 0,
       elementRules = [''.nv-color {color:red;}'', ''.nv-padding {padding:4px;}''],
       variableRules = [''.novu {--nv-colorPrimary:#111;}'', ''.novu {--nv-fontSize:16px;}''],
       cleanupRegistered = True\<rparr>)"
proof -
  have reg: "registryOf (parseElements exEnv (effectiveElements exElementsProps))
     = [(''button'', ''nv-color''), (''back__button'', ''nv-color nv-padding'')]"
    unfolding ex_effectiveElements
    by (simp add: exEnv_def specParseElements_def registryOf_def registryClass_def baseKey_def
        ownClass_def exGenClass_def)
  show ?thesis
    unfolding exEvents_def run_def
    by (simp add: exFirstMount_eq variablesEffect_def elementsEffect_def rulesEffect_def
        ex_variableRules ex_elementRules reg setInnerHTML_def objLit_def spread_def)
qed

section \<open>Determinism of the written text\<close>

text \<open>
  C4. With \<open>parseVariables\<close> and \<open>parseElements\<close> being functions of their arguments, the
  text that the pipeline writes to the style element is the same for the same helpers
  and props, whatever the document it starts from; running the effects again with the
  same props writes the same text again.
\<close>

theorem C4_written_css_deterministic:
  "writtenCss (pipeline env props d1) = writtenCss (pipeline env props d2)
   \<and> writtenCss (recompute env props (pipeline env props d1)) = writtenCss (pipeline env props d1)
   \<and> writtenCss (pipeline env props d1) \<noteq> None"
proof -
  obtain d' p' where s: "pipeline env props d1 = (d', p')"
    by (cases "pipeline env props d1")
  obtain dm pm where m: "onMount d1 initialProvider props = (dm, pm)"
    by (cases "onMount d1 initialProvider props")
  obtain r where r: "styleElement pm = Some r" "r < length (heap dm)"
    using onMount_valid [of d1 initialProvider props] by (auto simp: m)
  have p': "styleElement p' = Some r" and l: "r < length (heap d')"
    using recompute_written(2,3) [OF r, of env props] r(2) s
    by (simp_all add: pipeline_def m)
  have again: "writtenCss (recompute env props (pipeline env props d1))
               = Some (join '' '' (currentRules env props))"
    using recompute_written(1,2) [OF p' l, of env props]
    by (simp add: s writtenCss_def)
  show ?thesis
    by (simp add: pipeline_written again)
qed

section \<open>Mounting\<close>

lemma exEmptyFirstMount_eq:
  "exEmptyFirstMount =
     (\<lparr>heap = [\<lparr>tagName = ''style'', id_elem = [], innerHTML = []\<rparr>],
       headChildren = [0], otherElements = []\<rparr>,
      \<lparr>store = [], styleElement = Some 0, elementRules = [], variableRules = [],
       cleanupRegistered = True\<rparr>)"
  by (simp add: exEmptyFirstMount_def onMount_def getElementById_empty emptyDocument_def
      createElement_def setId_def appendChildHead_def exEmptyId_def initialProvider_def Let_def)

lemma exEmptySecondMount_eq:
  "exEmptySecondMount =
     (\<lparr>heap = [\<lparr>tagName = ''style'', id_elem = [], innerHTML = []\<rparr>,
               \<lparr>tagName = ''style'', id_elem = [], innerHTML = []\<rparr>],
       headChildren = [0, 1], otherElements = []\<rparr>,
      \<lparr>store = [], styleElement = Some 1, elementRules = [], variableRules = [],
       cleanupRegistered = True\<rparr>)"
  by (simp add: exEmptySecondMount_def exEmptyFirstMount_eq onMount_def getElementById_empty
      createElement_def setId_def appendChildHead_def exEmptyId_def initialProvider_def Let_def)

lemma exEmptyTeardown_eq:
  "fst exEmptyTeardown =
     \<lparr>heap = [\<lparr>tagName = ''style'', id_elem = [], innerHTML = []\<rparr>],
      headChildren = [0], otherElements = []\<rparr>"
  by (simp add: exEmptyTeardown_def exEmptyFirstMount_eq dispose_def cleanup_def
      getElementById_empty exEmptyId_def)

text \<open>
  C5, as stated, fails in two ways. Two instances use the id \<open>novu\<close> on an empty
  document: the first creates the style element, the second adopts it. When the first is
  torn down it removes the element, and the second, still mounted and holding the
  element, is left with no element of that id in the document. And with the empty
  string as id the lookup finds nothing, so the second mount does not adopt the element
  of the first: it creates a second style element, and both are attached.
\<close>

theorem adopter_left_without_node:
  "styleElement (snd exSecondMount) = Some 0
   \<and> \<not> cleanupRegistered (snd exSecondMount)
   \<and> nodesWithId (fst exFirstTeardown) ''novu'' = []
   \<and> id_props exEmptyId = []
   \<and> styleElement (snd exEmptyFirstMount) = Some 0
   \<and> styleElement (snd exEmptySecondMount) = Some 1
   \<and> cleanupRegistered (snd exEmptySecondMount)
   \<and> attached (fst exEmptySecondMount) = [0, 1]
   \<and> map tagName (heap (fst exEmptySecondMount)) = [''style'', ''style'']
   \<and> map id_elem (heap (fst exEmptySecondMount)) = [[], []]"
  by (simp add: exSecondMount_eq exFirstTeardown_eq nodesWithId_def attached_def
      exEmptyFirstMount_eq exEmptySecondMount_eq exEmptyId_def)

text \<open>
  C5, amended. For an id that is not the empty string: a mount on a document without an
  element of the id creates one \<open>style\<close> element with that id, appended to the head,
  and the instance holds it; a second mount with the same id then adopts that element
  and leaves the document as it is; a mount on a document that has an element of the id
  adopts the first such element. So a mount never adds a second element of an id: a
  document with at most one has exactly one afterwards. The element does not exist at
  all times: when the creating instance is torn down while the adopting instance is
  mounted, no element of the id is left in the document, and the adopting instance
  still holds the removed element.
\<close>

theorem C5_mount_creates_or_adopts:
  "(id_props props \<noteq> [] \<and> getElementById d (id_props props) = None \<longrightarrow>
      nodesWithId (fst (onMount d p props)) (id_props props) = [length (heap d)]
      \<and> styleElement (snd (onMount d p props)) = Some (length (heap d))
      \<and> heap (fst (onMount d p props)) ! length (heap d)
          = \<lparr>tagName = ''style'', id_elem = id_props props, innerHTML = []\<rparr>
      \<and> (id_props props' = id_props props \<longrightarrow>
           onMount (fst (onMount d p props)) p' props'
             = (fst (onMount d p props), p'\<lparr>styleElement := Some (length (heap d))\<rparr>)
           \<and> nodesWithId
                (fst (dispose (fst (onMount (fst (onMount d p props)) p' props'))
                        (snd (onMount d p props)) props))
                (id_props props) = []
           \<and> styleElement (snd (onMount (fst (onMount d p props)) p' props'))
                = Some (length (heap d))))
   \<and> (getElementById d (id_props props) = Some r \<longrightarrow>
        onMount d p props = (d, p\<lparr>styleElement := Some r\<rparr>))
   \<and> (id_props props \<noteq> [] \<and> length (nodesWithId d (id_props props)) \<le> 1 \<longrightarrow>
        length (nodesWithId (fst (onMount d p props)) (id_props props)) = 1)"
proof (intro conjI impI)
  assume hyp: "id_props props \<noteq> [] \<and> getElementById d (id_props props) = None"
  then have ne: "id_props props \<noteq> []" and none: "getElementById d (id_props props) = None"
    by simp_all
  let ?i = "id_props props"
  let ?n = "length (heap d)"
  have first: "onMount d p props
      = (mountedDocument d ?i, p\<lparr>styleElement := Some ?n, cleanupRegistered := True\<rparr>)"
    by (rule onMount_create [OF none])
  show "nodesWithId (fst (onMount d p props)) ?i = [?n]"
    by (simp add: first nodesWithId_mounted [OF none ne])
  show "styleElement (snd (onMount d p props)) = Some ?n"
    by (simp add: first)
  show "heap (fst (onMount d p props)) ! ?n
          = \<lparr>tagName = ''style'', id_elem = ?i, innerHTML = []\<rparr>"
    by (simp add: first mountedDocument_def)
  assume same: "id_props props' = ?i"
  have found: "getElementById (mountedDocument d ?i) (id_props props') = Some ?n"
    by (simp add: same getElementById_mounted [OF none ne])
  have second: "onMount (mountedDocument d ?i) p' props'
      = (mountedDocument d ?i, p'\<lparr>styleElement := Some ?n\<rparr>)"
    by (rule onMount_adopt [OF found])
  show "onMount (fst (onMount d p props)) p' props'
             = (fst (onMount d p props), p'\<lparr>styleElement := Some ?n\<rparr>)"
    by (simp add: first second)
  show "nodesWithId
          (fst (dispose (fst (onMount (fst (onMount d p props)) p' props'))
                  (snd (onMount d p props)) props)) ?i = []"
    by (simp add: first second dispose_def nodesWithId_cleanup nodesWithId_mounted [OF none ne])
  show "styleElement (snd (onMount (fst (onMount d p props)) p' props')) = Some ?n"
    by (simp add: first second)
next
  assume "getElementById d (id_props props) = Some r"
  then show "onMount d p props = (d, p\<lparr>styleElement := Some r\<rparr>)"
    by (rule onMount_adopt)
next
  assume "id_props props \<noteq> [] \<and> length (nodesWithId d (id_props props)) \<le> 1"
  then show "length (nodesWithId (fst (onMount d p props)) (id_props props)) = 1"
    by (simp add: onMount_count)
qed

theorem two_instances_one_node:
  "id_props exNoAppearance \<noteq> []
   \<and> getElementById emptyDocument (id_props exNoAppearance) = None
   \<and> nodesWithId (fst exFirstMount) ''novu'' = [0]
   \<and> getElementById (fst exFirstMount) (id_props exNoAppearance) = Some 0
   \<and> exSecondMount = (fst exFirstMount, initialProvider\<lparr>styleElement := Some 0\<rparr>)
   \<and> length (nodesWithId (fst exSecondMount) ''novu'') = 1
   \<and> nodesWithId (fst (dispose (fst exSecondMount) (snd exFirstMount) exNoAppearance)) ''novu''
       = []"
proof -
  have i: "id_props exNoAppearance = ''novu''" by (simp add: exNoAppearance_def)
  have ne: "id_props exNoAppearance \<noteq> []" by (simp add: i)
  have none: "getElementById emptyDocument (id_props exNoAppearance) = None"
    by (simp add: getElementById_def attached_def emptyDocument_def)
  have len: "length (heap emptyDocument) = 0" by (simp add: emptyDocument_def)
  note c = C5_mount_creates_or_adopts [where d = emptyDocument and props = exNoAppearance
      and p = initialProvider and props' = exNoAppearance and p' = initialProvider and r = 0]
  note c' = C5_mount_creates_or_adopts [where d = "fst exFirstMount" and props = exNoAppearance
      and p = initialProvider and r = 0 and props' = exNoAppearance and p' = initialProvider]
  have nodes: "nodesWithId (fst exFirstMount) ''novu'' = [0]"
    using c ne none len i by (simp add: exFirstMount_def)
  have some: "getElementById (fst exFirstMount) (id_props exNoAppearance) = Some 0"
    by (simp add: exFirstMount_eq getElementById_def attached_def hasId_def i)
  have second: "exSecondMount = (fst exFirstMount, initialProvider\<lparr>styleElement := Some 0\<rparr>)"
    using c' some by (simp add: exSecondMount_def)
  have "length (nodesWithId (fst exFirstMount) (id_props exNoAppearance)) \<le> 1"
    using nodes by (simp add: i)
  then have one: "length (nodesWithId (fst exSecondMount) ''novu'') = 1"
    using c' ne by (simp add: exSecondMount_def i)
  have "nodesWithId (fst (dispose (fst exSecondMount) (snd exFirstMount) exNoAppearance))
       (id_props exNoAppearance) = []"
    unfolding exFirstMount_def exSecondMount_def using c ne none by blast
  then have left:
    "nodesWithId (fst (dispose (fst exSecondMount) (snd exFirstMount) exNoAppearance))
       ''novu'' = []"
    by (simp add: i)
  from ne none nodes some second one left show ?thesis by (intro conjI)
qed

section \<open>Teardown\<close>

text \<open>
  C6, as stated, fails for the empty string as id. The mount on the empty document
  creates the style element and registers the cleanup; at teardown the cleanup looks the
  empty id up, finds nothing, and the element this instance created stays attached.
\<close>

theorem empty_id_node_survives_teardown:
  "id_props exEmptyId = []
   \<and> getElementById emptyDocument (id_props exEmptyId) = None
   \<and> cleanupRegistered (snd exEmptyFirstMount)
   \<and> styleElement (snd exEmptyFirstMount) = Some 0
   \<and> attached (fst exEmptyFirstMount) = [0]
   \<and> attached (fst exEmptyTeardown) = [0]"
  by (simp add: exEmptyFirstMount_eq exEmptyTeardown_eq attached_def exEmptyId_def
      getElementById_empty)

text \<open>
  C6, amended. Teardown of an instance that registered no cleanup (it adopted the
  element) changes nothing. Teardown of an instance that registered the cleanup (it
  created the element) looks the id up and removes the element found, and changes
  nothing when none is found. The cleanup is registered exactly when the mount found no
  element of the id. For an id that is not the empty string, after a mount that created
  the element, any run of the effects and the teardown, no element of the id is left,
  and the next mount creates a new element, different from the first and with empty
  content.
\<close>

theorem C6_teardown_removes_own_node:
  "(\<not> cleanupRegistered p \<longrightarrow> dispose d p props = (d, p))
   \<and> (cleanupRegistered p \<longrightarrow>
        fst (dispose d p props)
          = (case getElementById d (id_props props) of
               Some element \<Rightarrow> removeElement d element
             | None \<Rightarrow> d))
   \<and> (cleanupRegistered p \<and> getElementById d (id_props props) = Some r \<longrightarrow>
        r \<notin> set (attached (fst (dispose d p props))))
   \<and> (getElementById d (id_props props) = None \<longrightarrow> fst (dispose d p props) = d)
   \<and> (cleanupRegistered (snd (onMount d initialProvider props))
        \<longleftrightarrow> getElementById d (id_props props) = None)
   \<and> (id_props props \<noteq> [] \<and> getElementById d (id_props props) = None
        \<and> list_all isEffect evs \<longrightarrow>
        getElementById (fst (mountedLife env d p props evs)) (id_props props) = None
        \<and> styleElement (snd (onMount d p props)) = Some (length (heap d))
        \<and> styleElement (snd (onMount (fst (mountedLife env d p props evs)) p' props))
            = Some (Suc (length (heap d)))
        \<and> getInnerHTML (fst (onMount (fst (mountedLife env d p props evs)) p' props))
            (Suc (length (heap d))) = Some []
        \<and> nodesWithId (fst (onMount (fst (mountedLife env d p props evs)) p' props))
            (id_props props) = [Suc (length (heap d))])"
proof (intro conjI impI)
  show "dispose d p props = (d, p)" if "\<not> cleanupRegistered p"
    using that by (simp add: dispose_def)
  show "fst (dispose d p props)
          = (case getElementById d (id_props props) of
               Some element \<Rightarrow> removeElement d element
             | None \<Rightarrow> d)" if "cleanupRegistered p"
    using that by (simp add: dispose_def cleanup_def)
  show "r \<notin> set (attached (fst (dispose d p props)))"
    if "cleanupRegistered p \<and> getElementById d (id_props props) = Some r"
    using that by (simp add: dispose_def cleanup_attached)
  show "fst (dispose d p props) = d" if "getElementById d (id_props props) = None"
    using that by (simp add: dispose_def cleanup_def)
  show "cleanupRegistered (snd (onMount d initialProvider props))
        \<longleftrightarrow> getElementById d (id_props props) = None"
    by (cases "getElementById d (id_props props)")
       (simp_all add: onMount_create onMount_adopt initialProvider_def)
next
  assume hyp: "id_props props \<noteq> [] \<and> getElementById d (id_props props) = None
        \<and> list_all isEffect evs"
  let ?i = "id_props props"
  let ?n = "length (heap d)"
  from hyp have ne: "?i \<noteq> []" and none: "getElementById d ?i = None"
    and evs: "list_all isEffect evs"
    by simp_all
  define p1 where "p1 = p\<lparr>styleElement := Some ?n, cleanupRegistered := True\<rparr>"
  have m: "onMount d p props = (mountedDocument d ?i, p1)"
    by (simp add: onMount_create [OF none] p1_def)
  obtain d2 p2 where r: "run env (mountedDocument d ?i, p1) evs = (d2, p2)"
    by (cases "run env (mountedDocument d ?i, p1) evs")
  have reg1: "cleanupRegistered p1"
    by (simp add: p1_def)
  have shape: "sameShape (mountedDocument d ?i) d2" and reg: "cleanupRegistered p2"
    using run_effects [OF evs, of "mountedDocument d ?i" env p1] reg1 by (simp_all add: r)
  have life: "mountedLife env d p props evs = (cleanup d2 ?i, p2\<lparr>cleanupRegistered := False\<rparr>)"
    by (simp add: mountedLife_def m r dispose_def reg)
  have nodes2: "nodesWithId d2 ?i = [?n]"
    by (simp add: nodesWithId_sameShape [OF shape] nodesWithId_mounted [OF none ne])
  have gone: "getElementById (cleanup d2 ?i) ?i = None"
    by (simp add: getElementById_nodesWithId [of "cleanup d2 ?i"] nodesWithId_cleanup nodes2)
  have len: "length (heap (cleanup d2 ?i)) = Suc ?n"
    by (simp add: heap_cleanup length_heap_sameShape [OF shape] mountedDocument_def)
  show "getElementById (fst (mountedLife env d p props evs)) ?i = None"
    by (simp add: life gone)
  show "styleElement (snd (onMount d p props)) = Some ?n"
    by (simp add: m p1_def)
  show "styleElement (snd (onMount (fst (mountedLife env d p props evs)) p' props)) = Some (Suc ?n)"
    by (simp add: life onMount_create [OF gone] len)
  show "getInnerHTML (fst (onMount (fst (mountedLife env d p props evs)) p' props)) (Suc ?n)
          = Some []"
    using getInnerHTML_mounted_new [of "cleanup d2 ?i" ?i]
    by (simp add: life onMount_create [OF gone] len)
  show "nodesWithId (fst (onMount (fst (mountedLife env d p props evs)) p' props)) ?i = [Suc ?n]"
    by (simp add: life onMount_create [OF gone] nodesWithId_mounted [OF gone ne] len)
qed

theorem create_remove_remount_example:
  "id_props exNoAppearance \<noteq> []
   \<and> getElementById emptyDocument (id_props exNoAppearance) = None
   \<and> list_all isEffect exEvents
   \<and> getInnerHTML (fst (run exEnv exFirstMount exEvents)) 0
       = Some ''.novu {--nv-colorPrimary:#111;} .novu {--nv-fontSize:16px;} .nv-color {color:red;} .nv-padding {padding:4px;}''
   \<and> getElementById
        (fst (mountedLife exEnv emptyDocument initialProvider exNoAppearance exEvents)) ''novu''
       = None
   \<and> styleElement (snd (onMount
        (fst (mountedLife exEnv emptyDocument initialProvider exNoAppearance exEvents))
        initialProvider exNoAppearance)) = Some 1
   \<and> getInnerHTML (fst (onMount
        (fst (mountedLife exEnv emptyDocument initialProvider exNoAppearance exEvents))
        initialProvider exNoAppearance)) 1 = Some []
   \<and> \<not> cleanupRegistered (snd exSecondMount)
   \<and> dispose (fst exSecondMount) (snd exSecondMount) exNoAppearance = exSecondMount
   \<and> cleanupRegistered (snd exFirstMount)
   \<and> getElementById (fst exFirstMount) (id_props exNoAppearance) = Some 0
   \<and> 0 \<notin> set (attached (fst (dispose (fst exFirstMount) (snd exFirstMount) exNoAppearance)))"
proof -
  have i: "id_props exNoAppearance = ''novu''" by (simp add: exNoAppearance_def)
  have ne: "id_props exNoAppearance \<noteq> []" by (simp add: i)
  have none: "getElementById emptyDocument (id_props exNoAppearance) = None"
    by (simp add: getElementById_def attached_def emptyDocument_def)
  have evs: "list_all isEffect exEvents"
    by (simp add: exEvents_def)
  have len: "length (heap emptyDocument) = 0" by (simp add: emptyDocument_def)
  have written: "getInnerHTML (fst (run exEnv exFirstMount exEvents)) 0
       = Some ''.novu {--nv-colorPrimary:#111;} .novu {--nv-fontSize:16px;} .nv-color {color:red;} .nv-padding {padding:4px;}''"
    by (simp add: exEvents_run getInnerHTML_def)
  note cycle = C6_teardown_removes_own_node [where p = initialProvider and d = emptyDocument and props = exNoAppearance
      and evs = exEvents and env = exEnv and p' = initialProvider]
  have gone: "getElementById
        (fst (mountedLife exEnv emptyDocument initialProvider exNoAppearance exEvents)) ''novu''
       = None"
    using cycle ne none evs by (simp add: i)
  have fresh: "styleElement (snd (onMount
        (fst (mountedLife exEnv emptyDocument initialProvider exNoAppearance exEvents))
        initialProvider exNoAppearance)) = Some 1"
    using cycle ne none evs by (simp add: len)
  have blank: "getInnerHTML (fst (onMount
        (fst (mountedLife exEnv emptyDocument initialProvider exNoAppearance exEvents))
        initialProvider exNoAppearance)) 1 = Some []"
    using cycle ne none evs by (simp add: len)
  have adopter: "\<not> cleanupRegistered (snd exSecondMount)"
    by (simp add: exSecondMount_eq)
  have unchanged: "dispose (fst exSecondMount) (snd exSecondMount) exNoAppearance = exSecondMount"
    using C6_teardown_removes_own_node [where p = "snd exSecondMount" and d = "fst exSecondMount"
        and props = exNoAppearance] adopter
    by simp
  have creator: "cleanupRegistered (snd exFirstMount)"
    by (simp add: exFirstMount_eq)
  have found: "getElementById (fst exFirstMount) (id_props exNoAppearance) = Some 0"
    by (simp add: exFirstMount_eq getElementById_def attached_def hasId_def i)
  have removed:
    "0 \<notin> set (attached (fst (dispose (fst exFirstMount) (snd exFirstMount) exNoAppearance)))"
    using C6_teardown_removes_own_node [where p = "snd exFirstMount" and d = "fst exFirstMount"
        and props = exNoAppearance and r = 0] creator found
    by blast
  from ne none evs written gone fresh blank adopter unchanged creator found removed
  show ?thesis by (intro conjI)
qed

section \<open>Writing the rules\<close>

text \<open>
  C7. On a mounted instance the rules effect replaces the content of the style element by
  the variable rules followed by the element rules, joined by single spaces as
  \<open>join(' ')\<close> does; after a round of the three effects these are the rules computed from
  the current props. The earlier content plays no part.
\<close>

theorem C7_rules_overwrite_content:
  assumes "styleElement p = Some r" and "r < length (heap d)"
  shows "getInnerHTML (rulesEffect d p) r = Some (join '' '' (variableRules p @ elementRules p))
         \<and> getInnerHTML (fst (recompute env props (d, p))) r
             = Some (join '' ''
                 (parseVariables env (effectiveVariables (defaultVariables env) props)
                    (id_props props)
                  @ map rule (parseElements env (effectiveElements props))))"
  using assms recompute_written(1) [OF assms, of env props]
  by (simp add: rulesEffect_def getInnerHTML_setInnerHTML currentRules_def)

theorem rules_written_example:
  "styleElement exMounted = Some 0 \<and> 0 < length (heap (fst exFirstMount))
   \<and> getInnerHTML (fst (recompute exEnv exElementsProps (fst exFirstMount, exMounted))) 0
       = Some ''.novu {--nv-colorPrimary:#000;} .nv-color {color:red;} .nv-padding {padding:4px;}''"
proof -
  have valid: "0 < length (heap (fst exFirstMount))"
    by (simp add: exFirstMount_eq)
  have vars: "parseVariables exEnv (effectiveVariables (defaultVariables exEnv) exElementsProps)
     (id_props exElementsProps) = [''.novu {--nv-colorPrimary:#000;}'']"
    by (simp add: effectiveVariables_def baseVariables_def reducedVariables_def themes_def
      topVariables_def orEmpty_def objLit_def spread_def exDefaults_def exElementsProps_def
      exEnv_def exParseVariables_def emptyTheme_def)
  have "getInnerHTML (fst (recompute exEnv exElementsProps (fst exFirstMount, exMounted))) 0
       = Some ''.novu {--nv-colorPrimary:#000;} .nv-color {color:red;} .nv-padding {padding:4px;}''"
    using C7_rules_overwrite_content [OF exMounted_style valid, of exEnv exElementsProps]
    by (simp add: vars ex_elementRules)
  with exMounted_style valid show ?thesis by (intro conjI)
qed

section \<open>The accessor outside a provider\<close>

text \<open>
  C8. Without an enclosing provider \<open>useAppearance\<close> ends in the error
  "useAppearance must be used within an AppearanceProvider"; inside a provider it returns
  the value of the nearest one, in particular the value that \<open>AppearanceProvider\<close>
  provides.
\<close>

theorem C8_accessor_outside_provider:
  "useAppearance [] = Inl (Error ''useAppearance must be used within an AppearanceProvider'')
   \<and> useAppearance (context # outer) = Inr context
   \<and> useAppearance (contextValue props p # outer) = Inr (contextValue props p)"
  by (simp add: useAppearance_def useContext_def)

section \<open>Nothing happens before the mount\<close>

text \<open>
  C9. While the instance holds no style element, the variables effect, the elements effect
  and the rules effect leave the state and the document as they are; so any execution
  without a mount ends where it started. The mount always yields an element of the
  heap, and once the instance holds an element no step takes it away.
\<close>

theorem C9_no_effect_before_mount:
  "(styleElement p = None \<longrightarrow>
      variablesEffect env props p = p \<and> elementsEffect env props p = p \<and> rulesEffect d p = d)
   \<and> ((\<forall>e\<in>set evs. \<not> isMount e) \<longrightarrow> run env (d, initialProvider) evs = (d, initialProvider))
   \<and> (\<exists>r. styleElement (snd (onMount d p props)) = Some r
          \<and> r < length (heap (fst (onMount d p props))))
   \<and> (styleElement p \<noteq> None \<longrightarrow> styleElement (snd (step env (d, p) e)) \<noteq> None)"
proof (intro conjI impI)
  assume "styleElement p = None"
  then show "variablesEffect env props p = p" "elementsEffect env props p = p" "rulesEffect d p = d"
    by (simp_all add: variablesEffect_def elementsEffect_def rulesEffect_def)
next
  assume "\<forall>e\<in>set evs. \<not> isMount e"
  then show "run env (d, initialProvider) evs = (d, initialProvider)"
    unfolding run_def by (induction evs) (simp_all add: step_before_mount)
next
  show "\<exists>r. styleElement (snd (onMount d p props)) = Some r
          \<and> r < length (heap (fst (onMount d p props)))"
    by (rule onMount_valid)
next
  assume "styleElement p \<noteq> None"
  then show "styleElement (snd (step env (d, p) e)) \<noteq> None"
    by (rule step_keeps_node)
qed

theorem unmounted_effects_idle_example:
  "styleElement initialProvider = None
   \<and> filter isMount exEarlyEvents = []
   \<and> variablesEffect exEnv exVariablesProps initialProvider = initialProvider
   \<and> elementsEffect exEnv exVariablesProps initialProvider = initialProvider
   \<and> rulesEffect emptyDocument initialProvider = emptyDocument
   \<and> run exEnv (emptyDocument, initialProvider) exEarlyEvents = (emptyDocument, initialProvider)
   \<and> styleElement exMounted \<noteq> None
   \<and> styleElement (snd (step exEnv (fst exFirstMount, exMounted) RunRules)) \<noteq> None"
proof -
  have unmounted: "styleElement initialProvider = None"
    by (simp add: initialProvider_def)
  have early: "\<forall>e\<in>set exEarlyEvents. \<not> isMount e"
    by (simp add: exEarlyEvents_def)
  have mounted: "styleElement exMounted \<noteq> None"
    by (simp add: exMounted_style)
  note a = C9_no_effect_before_mount [where p = initialProvider and env = exEnv and props = exVariablesProps
      and d = emptyDocument and evs = exEarlyEvents]
  note b = C9_no_effect_before_mount [where p = exMounted and env = exEnv and d = "fst exFirstMount" and e = RunRules]
  have 1: "variablesEffect exEnv exVariablesProps initialProvider = initialProvider"
    and 2: "elementsEffect exEnv exVariablesProps initialProvider = initialProvider"
    and 3: "rulesEffect emptyDocument initialProvider = emptyDocument"
    using a unmounted by simp_all
  have 4: "run exEnv (emptyDocument, initialProvider) exEarlyEvents = (emptyDocument, initialProvider)"
    using a early by simp
  have 5: "styleElement (snd (step exEnv (fst exFirstMount, exMounted) RunRules)) \<noteq> None"
    using b mounted by blast
  have nomount: "filter isMount exEarlyEvents = []"
    by (simp add: exEarlyEvents_def)
  from unmounted nomount 1 2 3 4 mounted 5 show ?thesis by (intro conjI)
qed

section \<open>The elements exposed by the context\<close>

lemma keys_baseElements_snoc:
  "fst ` set (foldl (\<lambda>acc obj. objLit [acc, orEmpty (elements obj)]) [] ths)
   = (\<Union>t\<in>set ths. fst ` set (orEmpty (elements t)))"
  by (induction ths rule: rev_induct) (auto simp: keys_objLit2)

text \<open>
  C10. The \<open>elements\<close> of the context value are the top-level \<open>appearance.elements\<close>, or
  the empty object when the appearance or its elements are missing; the base themes do
  not enter the context value. A key that only a base theme styles is in the effective
  map handed to \<open>parseElements\<close> and is not among the exposed elements.
\<close>

theorem C10_exposed_elements_top_level:
  "elements (contextValue props p)
     = Some (case appearance props of
               None \<Rightarrow> []
             | Some a \<Rightarrow> (case elements a of None \<Rightarrow> [] | Some els \<Rightarrow> els))
   \<and> (appearance props = Some a \<longrightarrow>
        contextValue (props\<lparr>appearance := Some (a\<lparr>baseTheme := bt\<rparr>)\<rparr>) p = contextValue props p)
   \<and> (t \<in> set (themes props) \<and> k \<in> fst ` set (orEmpty (elements t))
        \<and> k \<notin> fst ` set (topElements props) \<longrightarrow>
        k \<in> fst ` set (effectiveElements props)
        \<and> map_of (orEmpty (elements (contextValue props p))) k = None)"
proof (intro conjI impI)
  show "elements (contextValue props p)
     = Some (case appearance props of
               None \<Rightarrow> []
             | Some a \<Rightarrow> (case elements a of None \<Rightarrow> [] | Some els \<Rightarrow> els))"
    by (simp add: contextValue_def topElements_def orEmpty_def split: option.splits)
  show "contextValue (props\<lparr>appearance := Some (a\<lparr>baseTheme := bt\<rparr>)\<rparr>) p = contextValue props p"
    if "appearance props = Some a"
    using that by (simp add: contextValue_def topElements_def)
next
  assume h: "t \<in> set (themes props) \<and> k \<in> fst ` set (orEmpty (elements t))
        \<and> k \<notin> fst ` set (topElements props)"
  then have "k \<in> fst ` set (baseElements props)"
    unfolding baseElements_def keys_baseElements_snoc by blast
  then show "k \<in> fst ` set (effectiveElements props)"
    by (simp add: effectiveElements_def keys_objLit2)
  show "map_of (orEmpty (elements (contextValue props p))) k = None"
    using h by (simp add: contextValue_def orEmpty_def map_of_eq_None_iff)
qed

theorem base_theme_elements_hidden_example:
  "exBaseTheme \<in> set (themes exBaseOnlyProps)
   \<and> ''button'' \<in> fst ` set (orEmpty (elements exBaseTheme))
   \<and> ''button'' \<notin> fst ` set (topElements exBaseOnlyProps)
   \<and> appearance exBaseOnlyProps = Some exTopLevel
   \<and> elements (contextValue exBaseOnlyProps exMounted) = Some []
   \<and> contextValue (exBaseOnlyProps\<lparr>appearance := Some (exTopLevel\<lparr>baseTheme := None\<rparr>)\<rparr>)
         exMounted = contextValue exBaseOnlyProps exMounted
   \<and> ''button'' \<in> fst ` set (effectiveElements exBaseOnlyProps)
   \<and> map_of (orEmpty (elements (contextValue exBaseOnlyProps exMounted))) ''button'' = None
   \<and> map_of (store (elementsEffect exEnv exBaseOnlyProps exMounted)) ''button''
       = Some ''nv-color''"
proof -
  have t: "exBaseTheme \<in> set (themes exBaseOnlyProps)"
    by (simp add: themes_def exBaseOnlyProps_def exTopLevel_def)
  have k: "''button'' \<in> fst ` set (orEmpty (elements exBaseTheme))"
    by (simp add: exBaseTheme_def orEmpty_def)
  have top: "''button'' \<notin> fst ` set (topElements exBaseOnlyProps)"
    by (simp add: topElements_def exBaseOnlyProps_def exTopLevel_def orEmpty_def)
  have a: "appearance exBaseOnlyProps = Some exTopLevel"
    by (simp add: exBaseOnlyProps_def)
  note c = C10_exposed_elements_top_level [where props = exBaseOnlyProps and p = exMounted
      and a = exTopLevel and bt = None and t = exBaseTheme and k = "''button''"]
  have exposed: "elements (contextValue exBaseOnlyProps exMounted) = Some []"
    using c by (simp add: exBaseOnlyProps_def exTopLevel_def)
  have same: "contextValue (exBaseOnlyProps\<lparr>appearance := Some (exTopLevel\<lparr>baseTheme := None\<rparr>)\<rparr>)
         exMounted = contextValue exBaseOnlyProps exMounted"
    using c a by blast
  have used: "''button'' \<in> fst ` set (effectiveElements exBaseOnlyProps)"
    and hidden: "map_of (orEmpty (elements (contextValue exBaseOnlyProps exMounted))) ''button'' = None"
    using c t k top by blast+
  have registered: "map_of (store (elementsEffect exEnv exBaseOnlyProps exMounted)) ''button''
       = Some ''nv-color''"
    by (simp add: elementsEffect_def exMounted_eq model_defs exBaseOnlyProps_def exTopLevel_def
      exBaseTheme_def exEnv_def specParseElements_def registryOf_def registryClass_def baseKey_def ownClass_def
      exGenClass_def)
  from t k top a exposed same used hidden registered show ?thesis by (intro conjI)
qed

end
